theory Spec2Isabelle
  imports Main
begin

section \<open>Constants (consts.js)\<close>

text \<open>
  The entries of \<open>rejectMessages\<close> that the invoker and the commands use, and the two
  stack events of \<open>eventNames\<close>. The older revision of the invoker (src/js/invoker.js)
  fires four payload-free events instead; they are part of the same datatype.
\<close>

definition rejectMessages_isLock :: string where
  "rejectMessages_isLock = ''The executing command state is locked.''"

definition rejectMessages_undo :: string where
  "rejectMessages_undo = ''The promise of undo command is reject.''"

definition rejectMessages_redo :: string where
  "rejectMessages_redo = ''The promise of redo command is reject.''"

definition rejectMessages_noObject :: string where
  "rejectMessages_noObject = ''The object is not in canvas.''"

definition rejectMessages_loadImage :: string where
  "rejectMessages_loadImage = ''The background image is empty.''"

datatype event =
    UNDO_STACK_CHANGED nat
  | REDO_STACK_CHANGED nat
  | PUSH_UNDO_STACK
  | PUSH_REDO_STACK
  | EMPTY_UNDO_STACK
  | EMPTY_REDO_STACK

section \<open>Promises and commands (interface/command.js)\<close>

text \<open>
  A rejection reason is a message, or \<open>undefined\<close> when \<open>reject()\<close> is called without an
  argument. A promise is represented by the state it settles to. \<open>Unsettled\<close> stands for
  an action whose promise never settles, and for a call that throws before it returns a
  promise: in both cases no handler attached by the invoker ever runs.
\<close>

datatype reason = NoReason | Reason string

datatype 'v promise = Resolved 'v | Rejected reason | Unsettled

text \<open>
  A command carries its two actions, the optional callbacks and its private \<open>undoData\<close>.
  The positional \<open>args\<close> are bound inside the actions by the factory; an action reads and
  writes \<open>this.undoData\<close> and the collaborator \<open>'g\<close>, and returns a promise.
\<close>

record ('g, 'u, 'v) command =
  name :: string
  cmd_execute :: "'u \<Rightarrow> 'g \<Rightarrow> 'v promise \<times> 'u \<times> 'g"
  cmd_undo :: "'u \<Rightarrow> 'g \<Rightarrow> 'v promise \<times> 'u \<times> 'g"
  executeCallback :: "('v \<Rightarrow> 'g \<Rightarrow> 'g) option"
  undoCallback :: "('v \<Rightarrow> 'g \<Rightarrow> 'g) option"
  undoData :: 'u

section \<open>Invoker (the revision with \<open>execute(...args)\<close>)\<close>

text \<open>
  Both stacks are JavaScript arrays with the most recent command last: \<open>push\<close> appends,
  \<open>pop\<close> takes the last element. \<open>fired\<close> is the log of the events handed to
  \<open>this.fire\<close>, oldest first.
\<close>

record ('g, 'u, 'v) invoker =
  undoStack :: "('g, 'u, 'v) command list"
  redoStack :: "('g, 'u, 'v) command list"
  isLocked :: bool
  fired :: "event list"

definition new_Invoker :: "('g, 'u, 'v) invoker" where
  "new_Invoker = \<lparr>undoStack = [], redoStack = [], isLocked = False, fired = []\<rparr>"

definition pop :: "'a list \<Rightarrow> 'a option \<times> 'a list" where
  \<comment> \<open>Array.prototype.pop: \<open>undefined\<close> on the empty array, which stays empty.\<close>
  "pop xs = (if xs = [] then (None, []) else (Some (last xs), butlast xs))"

definition fireRedoStackChanged :: "('g, 'u, 'v) invoker \<Rightarrow> ('g, 'u, 'v) invoker" where
  "fireRedoStackChanged iv =
     iv\<lparr>fired := fired iv @ [REDO_STACK_CHANGED (length (redoStack iv))]\<rparr>"

definition fireUndoStackChanged :: "('g, 'u, 'v) invoker \<Rightarrow> ('g, 'u, 'v) invoker" where
  "fireUndoStackChanged iv =
     iv\<lparr>fired := fired iv @ [UNDO_STACK_CHANGED (length (undoStack iv))]\<rparr>"

definition lock :: "('g, 'u, 'v) invoker \<Rightarrow> ('g, 'u, 'v) invoker" where
  "lock iv = iv\<lparr>isLocked := True\<rparr>"

definition unlock :: "('g, 'u, 'v) invoker \<Rightarrow> ('g, 'u, 'v) invoker" where
  "unlock iv = iv\<lparr>isLocked := False\<rparr>"

definition pushUndoStack ::
  "('g, 'u, 'v) command \<Rightarrow> bool \<Rightarrow> ('g, 'u, 'v) invoker \<Rightarrow> ('g, 'u, 'v) invoker" where
  "pushUndoStack c isSilent iv =
     (let iv1 = iv\<lparr>undoStack := undoStack iv @ [c]\<rparr>
      in if \<not> isSilent then fireUndoStackChanged iv1 else iv1)"

definition pushRedoStack ::
  "('g, 'u, 'v) command \<Rightarrow> bool \<Rightarrow> ('g, 'u, 'v) invoker \<Rightarrow> ('g, 'u, 'v) invoker" where
  "pushRedoStack c isSilent iv =
     (let iv1 = iv\<lparr>redoStack := redoStack iv @ [c]\<rparr>
      in if \<not> isSilent then fireRedoStackChanged iv1 else iv1)"

definition isEmptyRedoStack :: "('g, 'u, 'v) invoker \<Rightarrow> bool" where
  "isEmptyRedoStack iv = (length (redoStack iv) = 0)"

definition isEmptyUndoStack :: "('g, 'u, 'v) invoker \<Rightarrow> bool" where
  "isEmptyUndoStack iv = (length (undoStack iv) = 0)"

definition clearUndoStack :: "('g, 'u, 'v) invoker \<Rightarrow> ('g, 'u, 'v) invoker" where
  "clearUndoStack iv =
     (if \<not> isEmptyUndoStack iv then fireUndoStackChanged (iv\<lparr>undoStack := []\<rparr>) else iv)"

definition clearRedoStack :: "('g, 'u, 'v) invoker \<Rightarrow> ('g, 'u, 'v) invoker" where
  "clearRedoStack iv =
     (if \<not> isEmptyRedoStack iv then fireRedoStackChanged (iv\<lparr>redoStack := []\<rparr>) else iv)"

text \<open>
  A method that returns a promise runs in two parts. The part up to the \<open>return\<close> is
  synchronous: it either hands back an already rejected promise (\<open>Immediate\<close>) or locks
  the invoker and calls the command's action, whose promise is then in flight
  (\<open>InFlight\<close>, with the command and the state that promise settles to). The handlers
  attached with \<open>then\<close> and \<open>catch\<close> run later, when that promise settles.
\<close>

datatype ('c, 'v) started = Immediate reason | InFlight 'c "'v promise"

definition callback ::
  "('v \<Rightarrow> 'g \<Rightarrow> 'g) option \<Rightarrow> 'v \<Rightarrow> 'g \<Rightarrow> 'g" where
  \<comment> \<open>\<open>if (isFunction(cb)) cb(value)\<close>\<close>
  "callback cb v g = (case cb of None \<Rightarrow> g | Some f \<Rightarrow> f v g)"

definition invokeExecution_call ::
  "('g, 'u, 'v) command \<Rightarrow> ('g, 'u, 'v) invoker \<Rightarrow> 'g
     \<Rightarrow> (('g, 'u, 'v) command, 'v) started \<times> ('g, 'u, 'v) invoker \<times> 'g" where
  "invokeExecution_call c iv g =
     (let iv1 = lock iv;
          (p, u, g1) = cmd_execute c (undoData c) g
      in (InFlight (c\<lparr>undoData := u\<rparr>) p, iv1, g1))"

definition invokeExecution_settled ::
  "('g, 'u, 'v) command \<Rightarrow> 'v promise \<Rightarrow> ('g, 'u, 'v) invoker \<Rightarrow> 'g
     \<Rightarrow> 'v promise \<times> ('g, 'u, 'v) invoker \<times> 'g" where
  "invokeExecution_settled c p iv g =
     (case p of
        Resolved v \<Rightarrow>
          (let iv1 = pushUndoStack c False iv;
               iv2 = unlock iv1;
               g1 = callback (executeCallback c) v g
           in (Resolved v, iv2, g1))
      | Rejected message \<Rightarrow> (Rejected message, unlock iv, g)
      | Unsettled \<Rightarrow> (Unsettled, iv, g))"

definition invokeUndo_call ::
  "('g, 'u, 'v) command \<Rightarrow> ('g, 'u, 'v) invoker \<Rightarrow> 'g
     \<Rightarrow> (('g, 'u, 'v) command, 'v) started \<times> ('g, 'u, 'v) invoker \<times> 'g" where
  "invokeUndo_call c iv g =
     (let iv1 = lock iv;
          (p, u, g1) = cmd_undo c (undoData c) g
      in (InFlight (c\<lparr>undoData := u\<rparr>) p, iv1, g1))"

definition invokeUndo_settled ::
  "('g, 'u, 'v) command \<Rightarrow> 'v promise \<Rightarrow> ('g, 'u, 'v) invoker \<Rightarrow> 'g
     \<Rightarrow> 'v promise \<times> ('g, 'u, 'v) invoker \<times> 'g" where
  "invokeUndo_settled c p iv g =
     (case p of
        Resolved v \<Rightarrow>
          (let iv1 = pushRedoStack c False iv;
               iv2 = unlock iv1;
               g1 = callback (undoCallback c) v g
           in (Resolved v, iv2, g1))
      | Rejected message \<Rightarrow> (Rejected message, unlock iv, g)
      | Unsettled \<Rightarrow> (Unsettled, iv, g))"

definition execute_call ::
  "('g, 'u, 'v) command \<Rightarrow> ('g, 'u, 'v) invoker \<Rightarrow> 'g
     \<Rightarrow> (('g, 'u, 'v) command, 'v) started \<times> ('g, 'u, 'v) invoker \<times> 'g" where
  "execute_call c iv g =
     (if isLocked iv then (Immediate (Reason rejectMessages_isLock), iv, g)
      else invokeExecution_call c iv g)"

definition execute_settled ::
  "('g, 'u, 'v) command \<Rightarrow> 'v promise \<Rightarrow> ('g, 'u, 'v) invoker \<Rightarrow> 'g
     \<Rightarrow> 'v promise \<times> ('g, 'u, 'v) invoker \<times> 'g" where
  "execute_settled c p iv g =
     (case invokeExecution_settled c p iv g of
        (Resolved v, iv1, g1) \<Rightarrow> (Resolved v, clearRedoStack iv1, g1)
      | (Rejected message, iv1, g1) \<Rightarrow> (Rejected message, iv1, g1)
      | (Unsettled, iv1, g1) \<Rightarrow> (Unsettled, iv1, g1))"

definition undo_call ::
  "('g, 'u, 'v) invoker \<Rightarrow> 'g
     \<Rightarrow> (('g, 'u, 'v) command, 'v) started \<times> ('g, 'u, 'v) invoker \<times> 'g" where
  "undo_call iv g =
     (let (command, stack) = pop (undoStack iv);
          iv1 = iv\<lparr>undoStack := stack\<rparr>;
          (command, iv2) =
             (if command \<noteq> None \<and> isLocked iv1
              then (None, pushUndoStack (the command) True iv1)
              else (command, iv1))
      in case command of
           Some c \<Rightarrow>
             (let iv3 = (if isEmptyUndoStack iv2 then fireUndoStackChanged iv2 else iv2)
              in invokeUndo_call c iv3 g)
         | None \<Rightarrow>
             (let message = rejectMessages_undo;
                  message = (if isLocked iv2
                             then message @ '' Because '' @ rejectMessages_isLock
                             else message)
              in (Immediate (Reason message), iv2, g)))"

definition redo_call ::
  "('g, 'u, 'v) invoker \<Rightarrow> 'g
     \<Rightarrow> (('g, 'u, 'v) command, 'v) started \<times> ('g, 'u, 'v) invoker \<times> 'g" where
  "redo_call iv g =
     (let (command, stack) = pop (redoStack iv);
          iv1 = iv\<lparr>redoStack := stack\<rparr>;
          (command, iv2) =
             (if command \<noteq> None \<and> isLocked iv1
              then (None, pushRedoStack (the command) True iv1)
              else (command, iv1))
      in case command of
           Some c \<Rightarrow>
             (let iv3 = (if isEmptyRedoStack iv2 then fireRedoStackChanged iv2 else iv2)
              in invokeExecution_call c iv3 g)
         | None \<Rightarrow>
             (let message = rejectMessages_redo;
                  message = (if isLocked iv2
                             then message @ '' Because '' @ rejectMessages_isLock
                             else message)
              in (Immediate (Reason message), iv2, g)))"

text \<open>
  The awaited operations: the call, and, when an action was started, the handlers run on
  the promise it returned.
\<close>

definition execute ::
  "('g, 'u, 'v) command \<Rightarrow> ('g, 'u, 'v) invoker \<Rightarrow> 'g
     \<Rightarrow> 'v promise \<times> ('g, 'u, 'v) invoker \<times> 'g" where
  "execute c iv g =
     (case execute_call c iv g of
        (Immediate message, iv1, g1) \<Rightarrow> (Rejected message, iv1, g1)
      | (InFlight c1 p, iv1, g1) \<Rightarrow> execute_settled c1 p iv1 g1)"

definition undo ::
  "('g, 'u, 'v) invoker \<Rightarrow> 'g \<Rightarrow> 'v promise \<times> ('g, 'u, 'v) invoker \<times> 'g" where
  "undo iv g =
     (case undo_call iv g of
        (Immediate message, iv1, g1) \<Rightarrow> (Rejected message, iv1, g1)
      | (InFlight c1 p, iv1, g1) \<Rightarrow> invokeUndo_settled c1 p iv1 g1)"

definition redo ::
  "('g, 'u, 'v) invoker \<Rightarrow> 'g \<Rightarrow> 'v promise \<times> ('g, 'u, 'v) invoker \<times> 'g" where
  "redo iv g =
     (case redo_call iv g of
        (Immediate message, iv1, g1) \<Rightarrow> (Rejected message, iv1, g1)
      | (InFlight c1 p, iv1, g1) \<Rightarrow> invokeExecution_settled c1 p iv1 g1)"

text \<open>
  Calls issued one after the other without waiting for any promise: only the synchronous
  part of each call runs, since the handlers of a promise run after the current job.
\<close>

datatype ('g, 'u, 'v) call = Execute "('g, 'u, 'v) command" | Undo | Redo

definition issue_call ::
  "('g, 'u, 'v) call \<Rightarrow> ('g, 'u, 'v) invoker \<Rightarrow> 'g
     \<Rightarrow> (('g, 'u, 'v) command, 'v) started \<times> ('g, 'u, 'v) invoker \<times> 'g" where
  "issue_call k iv g =
     (case k of
        Execute c \<Rightarrow> execute_call c iv g
      | Undo \<Rightarrow> undo_call iv g
      | Redo \<Rightarrow> redo_call iv g)"




text \<open>
  Calls and the settling of promises in any order: a session keeps the actions in flight,
  each with the method that started it, since that decides which handlers run when its
  promise settles. An \<open>Unsettled\<close> promise stays in flight.
\<close>

datatype kind = Executing | Undoing | Redoing

datatype ('g, 'u, 'v) step = Call "('g, 'u, 'v) call" | Settle

record ('g, 'u, 'v) session =
  s_invoker :: "('g, 'u, 'v) invoker"
  s_collaborator :: 'g
  s_inFlight :: "(kind \<times> ('g, 'u, 'v) command \<times> 'v promise) list"

definition kindOf :: "('g, 'u, 'v) call \<Rightarrow> kind" where
  "kindOf k = (case k of Execute c \<Rightarrow> Executing | Undo \<Rightarrow> Undoing | Redo \<Rightarrow> Redoing)"

definition settle ::
  "kind \<Rightarrow> ('g, 'u, 'v) command \<Rightarrow> 'v promise \<Rightarrow> ('g, 'u, 'v) invoker \<Rightarrow> 'g
     \<Rightarrow> 'v promise \<times> ('g, 'u, 'v) invoker \<times> 'g" where
  "settle kd c p iv g =
     (case kd of
        Executing \<Rightarrow> execute_settled c p iv g
      | Undoing \<Rightarrow> invokeUndo_settled c p iv g
      | Redoing \<Rightarrow> invokeExecution_settled c p iv g)"

definition step :: "('g, 'u, 'v) step \<Rightarrow> ('g, 'u, 'v) session \<Rightarrow> ('g, 'u, 'v) session" where
  "step st s =
     (case st of
        Call k \<Rightarrow>
          (case issue_call k (s_invoker s) (s_collaborator s) of
             (Immediate m, iv1, g1) \<Rightarrow> s\<lparr>s_invoker := iv1, s_collaborator := g1\<rparr>
           | (InFlight c p, iv1, g1) \<Rightarrow>
               s\<lparr>s_invoker := iv1, s_collaborator := g1,
                 s_inFlight := s_inFlight s @ [(kindOf k, c, p)]\<rparr>)
      | Settle \<Rightarrow>
          (case s_inFlight s of
             [] \<Rightarrow> s
           | (kd, c, p) # rest \<Rightarrow>
               if p = Unsettled then s
               else (case settle kd c p (s_invoker s) (s_collaborator s) of
                       (r, iv1, g1) \<Rightarrow>
                         s\<lparr>s_invoker := iv1, s_collaborator := g1, s_inFlight := rest\<rparr>)))"



section \<open>Invoker, the revision of src/js/invoker.js\<close>

text \<open>
  This revision passes the component map to the action, fires payload-free events, and
  chains \<open>.then(push).catch(() => {}).then(unlock)\<close>: a rejection is replaced by a promise
  resolved with \<open>undefined\<close>. Values are therefore \<open>'v option\<close>, with \<open>None\<close> for
  \<open>undefined\<close>. The functions carry the suffix \<open>_cm\<close>; \<open>invoke\<close> is this revision's
  name for \<open>execute\<close>.
\<close>

definition pushUndoStack_cm ::
  "('g, 'u, 'v) command \<Rightarrow> bool \<Rightarrow> ('g, 'u, 'v) invoker \<Rightarrow> ('g, 'u, 'v) invoker" where
  "pushUndoStack_cm c isSilent iv =
     (let iv1 = iv\<lparr>undoStack := undoStack iv @ [c]\<rparr>
      in if \<not> isSilent then iv1\<lparr>fired := fired iv1 @ [PUSH_UNDO_STACK]\<rparr> else iv1)"

definition clearRedoStack_cm :: "('g, 'u, 'v) invoker \<Rightarrow> ('g, 'u, 'v) invoker" where
  "clearRedoStack_cm iv =
     (if \<not> isEmptyRedoStack iv
      then (let iv1 = iv\<lparr>redoStack := []\<rparr> in iv1\<lparr>fired := fired iv1 @ [EMPTY_REDO_STACK]\<rparr>)
      else iv)"

definition invokeExecution_cm_call ::
  "('g, 'u, 'v option) command \<Rightarrow> ('g, 'u, 'v option) invoker \<Rightarrow> 'g
     \<Rightarrow> (('g, 'u, 'v option) command, 'v option) started \<times> ('g, 'u, 'v option) invoker \<times> 'g" where
  "invokeExecution_cm_call c iv g =
     (let iv1 = lock iv;
          (p, u, g1) = cmd_execute c (undoData c) g
      in (InFlight (c\<lparr>undoData := u\<rparr>) p, iv1, g1))"

definition invokeExecution_cm_settled ::
  "('g, 'u, 'v option) command \<Rightarrow> 'v option promise \<Rightarrow> ('g, 'u, 'v option) invoker \<Rightarrow> 'g
     \<Rightarrow> 'v option promise \<times> ('g, 'u, 'v option) invoker \<times> 'g" where
  "invokeExecution_cm_settled c p iv g =
     (let \<comment> \<open>\<open>.then(value => { pushUndoStack; executeCallback; return value; })\<close>\<close>
          (p1, iv1, g1) =
             (case p of
                Resolved v \<Rightarrow>
                  (Resolved v, pushUndoStack_cm c False iv, callback (executeCallback c) v g)
              | Rejected message \<Rightarrow> (Rejected message, iv, g)
              | Unsettled \<Rightarrow> (Unsettled, iv, g));
          \<comment> \<open>\<open>.catch(() => {})\<close>: do nothing with exception\<close>
          p2 = (case p1 of
                  Resolved v \<Rightarrow> Resolved v
                | Rejected message \<Rightarrow> Resolved None
                | Unsettled \<Rightarrow> Unsettled)
      in \<comment> \<open>\<open>.then(value => { unlock; return value; })\<close>\<close>
         (case p2 of
            Resolved v \<Rightarrow> (Resolved v, unlock iv1, g1)
          | Rejected message \<Rightarrow> (Rejected message, iv1, g1)
          | Unsettled \<Rightarrow> (Unsettled, iv1, g1)))"

definition invoke ::
  "('g, 'u, 'v option) command \<Rightarrow> ('g, 'u, 'v option) invoker \<Rightarrow> 'g
     \<Rightarrow> 'v option promise \<times> ('g, 'u, 'v option) invoker \<times> 'g" where
  "invoke c iv g =
     (if isLocked iv then (Rejected (Reason rejectMessages_isLock), iv, g)
      else (case invokeExecution_cm_call c iv g of
              (Immediate message, iv1, g1) \<Rightarrow> (Rejected message, iv1, g1)
            | (InFlight c1 p, iv1, g1) \<Rightarrow>
                (case invokeExecution_cm_settled c1 p iv1 g1 of
                   (Resolved v, iv2, g2) \<Rightarrow> (Resolved v, clearRedoStack_cm iv2, g2)
                 | (Rejected message, iv2, g2) \<Rightarrow> (Rejected message, iv2, g2)
                 | (Unsettled, iv2, g2) \<Rightarrow> (Unsettled, iv2, g2))))"

section \<open>The canvas and Graphics (graphics.js)\<close>

text \<open>
  Fabric objects are mutable and compared by reference, so they live in a heap. An object
  carries the stamp of tui-code-snippet (\<open>__fe_id\<close>, absent until \<open>stamp\<close> is first called
  on it), its \<open>type\<close>, the children of a group, and its other properties. Selection state,
  coordinates and rendering are not represented.
\<close>

type_synonym ref = nat

record fobject =
  fe_id :: "nat option"
  otype :: string
  members :: "ref list"
  props :: "string \<Rightarrow> string option"

record graphics =
  heap :: "ref \<Rightarrow> fobject"
  nextRef :: ref
  lastId :: nat
  canvas :: "ref list"
  objects :: "nat \<Rightarrow> ref option"
  canvasImage :: "ref option"
  imageName :: string

definition stamp :: "ref \<Rightarrow> graphics \<Rightarrow> nat \<times> graphics" where
  \<comment> \<open>tui-code-snippet: \<open>if (!obj.__fe_id) obj.__fe_id = ++lastId; return obj.__fe_id\<close>\<close>
  "stamp r g =
     (case fe_id (heap g r) of
        Some i \<Rightarrow> (i, g)
      | None \<Rightarrow>
          (let i = lastId g + 1
           in (i, g\<lparr>lastId := i, heap := (heap g)(r := (heap g r)\<lparr>fe_id := Some i\<rparr>)\<rparr>)))"

definition isType :: "fobject \<Rightarrow> string \<Rightarrow> bool" where
  "isType obj t = (otype obj = t)"

definition isEmpty :: "fobject \<Rightarrow> bool" where
  "isEmpty obj = (length (members obj) = 0)"

definition addFabricObject :: "ref \<Rightarrow> graphics \<Rightarrow> nat \<times> graphics" where
  "addFabricObject obj g =
     (let (oid, g1) = stamp obj g
      in (oid, g1\<lparr>objects := (objects g1)(oid := Some obj)\<rparr>))"

definition removeFabricObject :: "nat \<Rightarrow> graphics \<Rightarrow> graphics" where
  "removeFabricObject oid g = g\<lparr>objects := (objects g)(oid := None)\<rparr>"

definition onObjectAdded :: "ref \<Rightarrow> graphics \<Rightarrow> graphics" where
  "onObjectAdded obj g =
     (if isType (heap g obj) ''cropzone'' then g else snd (addFabricObject obj g))"

definition onObjectRemoved :: "ref \<Rightarrow> graphics \<Rightarrow> graphics" where
  "onObjectRemoved obj g = (let (oid, g1) = stamp obj g in removeFabricObject oid g1)"

text \<open>
  The fabric canvas, with the two handlers Graphics attaches to it. \<open>add\<close> pushes its
  arguments (it does not look for duplicates) and fires \<open>object:added\<close> for each;
  \<open>remove\<close> splices out the first occurrence of each argument it finds and fires
  \<open>object:removed\<close> for it; \<open>clear\<close> empties the array without firing either event.
  The canvas array is the list of the objects on it: an \<open>undefined\<close> entry, which
  \<open>canvas.add(undefined)\<close> leaves behind when it throws, is not represented.
\<close>

definition canvas_add :: "ref list \<Rightarrow> graphics \<Rightarrow> graphics" where
  "canvas_add objs g = fold onObjectAdded objs (g\<lparr>canvas := canvas g @ objs\<rparr>)"

definition canvas_remove1 :: "ref \<Rightarrow> graphics \<Rightarrow> graphics" where
  "canvas_remove1 obj g =
     (if obj \<in> set (canvas g)
      then onObjectRemoved obj (g\<lparr>canvas := remove1 obj (canvas g)\<rparr>)
      else g)"

definition canvas_remove :: "ref list \<Rightarrow> graphics \<Rightarrow> graphics" where
  "canvas_remove objs g = fold canvas_remove1 objs g"

text \<open>
  \<open>obj.remove()\<close>, with fabric 1.6 (the release the README asks for). An object takes
  itself off its canvas, as \<open>canvas.remove(obj)\<close> does. A group is a collection as well,
  and its \<open>remove\<close> is the collection's method, which takes out of the group the children
  passed to it: called without an argument, as Graphics and the command factory call it,
  it removes nothing, neither from the group nor from the canvas. An object that is on
  no canvas is taken to be left as it is.
\<close>

definition object_remove :: "ref \<Rightarrow> graphics \<Rightarrow> graphics" where
  "object_remove obj g = (if isType (heap g obj) ''group'' then g else canvas_remove [obj] g)"

definition canvas_clear :: "graphics \<Rightarrow> graphics" where
  "canvas_clear g = g\<lparr>canvas := []\<rparr>"

definition canvas_contains :: "ref option \<Rightarrow> graphics \<Rightarrow> bool" where
  "canvas_contains target g = (case target of None \<Rightarrow> False | Some obj \<Rightarrow> obj \<in> set (canvas g))"

definition add :: "ref list \<Rightarrow> graphics \<Rightarrow> graphics" where
  \<comment> \<open>called with an array by the commands; a single object is wrapped into one\<close>
  "add objs g = canvas_add objs g"

definition contains :: "ref option \<Rightarrow> graphics \<Rightarrow> bool" where
  "contains target g = canvas_contains target g"

definition getObjects :: "graphics \<Rightarrow> ref list" where
  "getObjects g = canvas g"

definition getObject :: "nat \<Rightarrow> graphics \<Rightarrow> ref option" where
  "getObject oid g = objects g oid"

definition remove :: "ref \<Rightarrow> graphics \<Rightarrow> graphics" where
  "remove target g = canvas_remove [target] g"

definition removeAll :: "bool \<Rightarrow> graphics \<Rightarrow> ref list \<times> graphics" where
  "removeAll includesBackground g =
     (let objs = canvas g;
          g1 = canvas_remove (canvas g) g;
          g2 = (if includesBackground then canvas_clear g1 else g1)
      in (objs, g2))"

definition removeObjectById :: "nat \<Rightarrow> graphics \<Rightarrow> ref list \<times> graphics" where
  \<comment> \<open>\<open>canvas.discardActiveGroup()\<close> in the group branch only changes the selection;
      \<open>forEachObject\<close> is taken to visit the children in the order of the group's array\<close>
  "removeObjectById oid g =
     (let target = getObject oid g;
          isValidGroup =
            (case target of
               None \<Rightarrow> False
             | Some t \<Rightarrow> isType (heap g t) ''group'' \<and> \<not> isEmpty (heap g t))
      in case target of
           None \<Rightarrow> ([], g)
         | Some t \<Rightarrow>
             if isValidGroup
             then fold (\<lambda>obj (objs, g1). (objs @ [obj], object_remove obj g1))
                    (members (heap g t)) ([], g)
             else if canvas_contains target g then ([t], object_remove t g)
             else ([], g))"

definition setCanvasImage :: "string \<Rightarrow> ref option \<Rightarrow> graphics \<Rightarrow> graphics" where
  "setCanvasImage nm img g =
     (let g1 = (case img of None \<Rightarrow> g | Some r \<Rightarrow> snd (stamp r g))
      in g1\<lparr>imageName := nm, canvasImage := img\<rparr>)"

definition object_set :: "(string \<times> string option) list \<Rightarrow> fobject \<Rightarrow> fobject" where
  \<comment> \<open>\<open>obj.set({key: value, ...})\<close>, keys in the order of the object literal\<close>
  "object_set kvs obj = obj\<lparr>props := fold (\<lambda>(k, v) m. m(k := v)) kvs (props obj)\<rparr>"

definition setObjectProperties ::
  "nat \<Rightarrow> (string \<times> string option) list \<Rightarrow> graphics
     \<Rightarrow> ((string \<times> string option) list \<times> graphics) option" where
  \<comment> \<open>\<open>None\<close>: \<open>object.set\<close> throws a TypeError on the missing object\<close>
  "setObjectProperties oid ps g =
     (case getObject oid g of
        None \<Rightarrow> None
      | Some obj \<Rightarrow> Some (ps, g\<lparr>heap := (heap g)(obj := object_set ps (heap g obj))\<rparr>))"



text \<open>
  Values a command's promise resolves with: \<open>undefined\<close>, a fabric object, or the
  \<open>ObjectProps\<close> of \<open>createObjectProperties\<close> (id, type and the extracted properties).
\<close>

datatype val = Undefined | Object ref | ObjectProps nat string "(string \<times> string option) list"






section \<open>Commands with \<open>undoData\<close> (command/*.js)\<close>

text \<open>
  \<open>undoData\<close> starts as \<open>{}\<close>; \<open>store\<close> is the \<open>this.store\<close> of the older factory's commands.
\<close>

datatype store = StoreObjects "ref list" | StoreImage string "ref option" "ref list"

record undoData =
  ud_objects :: "ref list option"
  ud_object :: "ref option"
  ud_props :: "(string \<times> string option) list option"
  ud_color :: "string option"
  store :: "store option"

definition emptyUndoData :: undoData where
  "emptyUndoData =
     \<lparr>ud_objects = None, ud_object = None, ud_props = None, ud_color = None, store = None\<rparr>"

definition add_undoData_objects :: "undoData \<Rightarrow> graphics \<Rightarrow> val promise \<times> undoData \<times> graphics" where
  \<comment> \<open>\<open>graphics.add(this.undoData.objects); return Promise.resolve()\<close>. Without a recorded
      list the call passes \<open>undefined\<close> to the canvas, which pushes it onto its array and
      throws: the call does not return, and the state given here is the one before the
      call, the array with the \<open>undefined\<close> entry not being represented. The invoker
      never makes this call: it calls \<open>undo\<close> only on commands whose \<open>execute\<close> has
      resolved, and \<open>execute\<close> sets the list.\<close>
  "add_undoData_objects u g =
     (case ud_objects u of
        None \<Rightarrow> (Unsettled, u, g)
      | Some objs \<Rightarrow> (Resolved Undefined, u, add objs g))"

definition removeObject :: "nat \<Rightarrow> (graphics, undoData, val) command" where
  "removeObject oid =
     \<lparr>name = ''removeObject'',
      cmd_execute = (\<lambda>u g.
         let (objs, g1) = removeObjectById oid g;
             u1 = u\<lparr>ud_objects := Some objs\<rparr>
         in if length objs \<noteq> 0 then (Resolved Undefined, u1, g1)
            else (Rejected (Reason rejectMessages_noObject), u1, g1)),
      cmd_undo = add_undoData_objects,
      executeCallback = None, undoCallback = None, undoData = emptyUndoData\<rparr>"

definition clearObjects :: "(graphics, undoData, val) command" where
  "clearObjects =
     \<lparr>name = ''clearObjects'',
      cmd_execute = (\<lambda>u g.
         let (objs, g1) = removeAll False g
         in (Resolved Undefined, u\<lparr>ud_objects := Some objs\<rparr>, g1)),
      cmd_undo = add_undoData_objects,
      executeCallback = None, undoCallback = None, undoData = emptyUndoData\<rparr>"

definition setObjectProperties_command ::
  "nat \<Rightarrow> (string \<times> string option) list \<Rightarrow> (graphics, undoData, val) command" where
  "setObjectProperties_command oid ps =
     \<lparr>name = ''setObjectProperties'',
      cmd_execute = (\<lambda>u g.
         case getObject oid g of
           None \<Rightarrow> (Rejected (Reason rejectMessages_noObject), u, g)
         | Some targetObj \<Rightarrow>
             (let u1 = u\<lparr>ud_props := Some (map (\<lambda>(key, value). (key, props (heap g targetObj) key)) ps)\<rparr>
              in case setObjectProperties oid ps g of
                   None \<Rightarrow> (Unsettled, u1, g)
                 | Some (clone, g1) \<Rightarrow> (Resolved Undefined, u1, g1))),
      cmd_undo = (\<lambda>u g.
         let ps0 = (case ud_props u of None \<Rightarrow> [] | Some ps0 \<Rightarrow> ps0)
         in case setObjectProperties oid ps0 g of
              None \<Rightarrow> (Unsettled, u, g)
            | Some (clone, g1) \<Rightarrow> (Resolved Undefined, u, g1)),
      executeCallback = None, undoCallback = None, undoData = emptyUndoData\<rparr>"


text \<open>
  Change-icon-color uses the Icon component, which is not part of the sources: its
  \<open>getColor\<close> (\<open>None\<close> when the call throws) and \<open>setColor\<close> are parameters. In \<open>execute\<close>
  the \<open>reject\<close> for a missing object is not followed by a \<open>return\<close>, so the rest of the
  executor runs; the first settlement of a promise wins, and an exception thrown in the
  executor after it is dropped. \<open>undo\<close> takes \<open>object\<close> and \<open>color\<close> from
  \<open>this.undoData.object\<close>, that is from the fabric object: its \<open>color\<close> property, and no
  target, since an icon has no property \<open>object\<close>; without a recorded object the
  destructuring throws.
\<close>

record iconComponent =
  getColor :: "ref option \<Rightarrow> graphics \<Rightarrow> string option option"
  setColor :: "string option \<Rightarrow> ref option \<Rightarrow> graphics \<Rightarrow> graphics"

definition changeIconColor ::
  "iconComponent \<Rightarrow> nat \<Rightarrow> string \<Rightarrow> (graphics, undoData, val) command" where
  "changeIconColor iconComp oid color =
     \<lparr>name = ''changeIconColor'',
      cmd_execute = (\<lambda>u g.
         let targetObj = getObject oid g;
             rejected = (targetObj = None);
             u1 = u\<lparr>ud_object := targetObj\<rparr>
         in case getColor iconComp targetObj g of
              None \<Rightarrow>
                (if rejected then Rejected (Reason rejectMessages_noObject)
                 else Rejected (Reason ''TypeError''), u1, g)
            | Some c \<Rightarrow>
                (if rejected then Rejected (Reason rejectMessages_noObject)
                 else Resolved Undefined,
                 u1\<lparr>ud_color := c\<rparr>, setColor iconComp (Some color) targetObj g)),
      cmd_undo = (\<lambda>u g.
         case ud_object u of
           None \<Rightarrow> (Unsettled, u, g)
         | Some obj \<Rightarrow>
             (Resolved Undefined, u, setColor iconComp (props (heap g obj) ''color'') None g)),
      executeCallback = None, undoCallback = None, undoData = emptyUndoData\<rparr>"

section \<open>Commands of the older factory (factory/command.js, with \<open>this.store\<close>)\<close>

text \<open>
  These commands act on the canvas of the main component and resolve or reject without a
  value, so their values are \<open>val option\<close> with \<open>None\<close> for \<open>undefined\<close>, as the older
  invoker has them. The components reach a command through \<open>compMap\<close>, so the \<open>load\<close> of
  the image loader is a parameter of the load-image command.
\<close>

datatype img = NoImg | Url string | Img ref

text \<open>
  \<open>ImageLoader.load\<close> (component/imageLoader.js). With neither a name nor an image it
  goes back to the initial state and resolves; with a name and no image it rejects at
  once, without a reason. Otherwise fabric's \<open>canvas.setBackgroundImage\<close> fetches the
  picture: it is a parameter, giving the background image when the picture has an element
  and \<open>None\<close> when it has none. The component hands \<open>setCanvasImage\<close> on to its root,
  taken here to be that of Graphics; \<open>canvas.backgroundImage\<close> and the dimensions of the
  canvas are not represented.
\<close>

definition ImageLoader_load ::
  "(img \<Rightarrow> graphics \<Rightarrow> ref option \<times> graphics)
     \<Rightarrow> string \<Rightarrow> img \<Rightarrow> graphics \<Rightarrow> val option promise \<times> graphics" where
  "ImageLoader_load setBackgroundImage imgName im g =
     (if imgName = [] \<and> im = NoImg then (Resolved None, setCanvasImage [] None g)
      else if im = NoImg then (Rejected NoReason, g)
      else case setBackgroundImage im g of
             (None, g1) \<Rightarrow> (Rejected NoReason, g1)
           | (Some oImage, g1) \<Rightarrow>
               (Resolved (Some (Object oImage)), setCanvasImage imgName (Some oImage) g1))"

definition createAddObjectCommand ::
  "ref \<Rightarrow> graphics \<Rightarrow> (graphics, undoData, val option) command \<times> graphics" where
  \<comment> \<open>the factory stamps the object when it creates the command\<close>
  "createAddObjectCommand object g =
     (\<lparr>name = ''addObject'',
       cmd_execute = (\<lambda>u g.
          if \<not> canvas_contains (Some object) g
          then (Resolved (Some (Object object)), u, canvas_add [object] g)
          else (Rejected NoReason, u, g)),
       cmd_undo = (\<lambda>u g.
          if canvas_contains (Some object) g
          then (Resolved (Some (Object object)), u, canvas_remove [object] g)
          else (Rejected NoReason, u, g)),
       executeCallback = None, undoCallback = None, undoData = emptyUndoData\<rparr>,
      snd (stamp object g))"

definition add_store :: "undoData \<Rightarrow> graphics \<Rightarrow> val option promise \<times> undoData \<times> graphics" where
  \<comment> \<open>\<open>canvas.add.apply(canvas, this.store); return Promise.resolve()\<close>; \<open>apply\<close> passes
      no argument when \<open>this.store\<close> is \<open>undefined\<close> or has no length\<close>
  "add_store u g =
     (case store u of
        Some (StoreObjects objs) \<Rightarrow> (Resolved None, u, canvas_add objs g)
      | _ \<Rightarrow> (Resolved None, u, g))"

definition createClearCommand :: "(graphics, undoData, val option) command" where
  "createClearCommand =
     \<lparr>name = ''clearObjects'',
      cmd_execute = (\<lambda>u g.
         let objs = canvas g;
             u1 = u\<lparr>store := Some (StoreObjects objs)\<rparr>
         in if length objs \<noteq> 0 then (Resolved None, u1, fold object_remove objs g)
            else (Rejected NoReason, u1, g)),
      cmd_undo = add_store,
      executeCallback = None, undoCallback = None, undoData = emptyUndoData\<rparr>"

definition createRemoveCommand :: "ref option \<Rightarrow> (graphics, undoData, val option) command" where
  \<comment> \<open>\<open>this.store = target.getObjects()\<close> is the group's own array; no command here changes
      the children of a group, so the list is kept by value\<close>
  "createRemoveCommand target =
     \<lparr>name = ''removeObject'',
      cmd_execute = (\<lambda>u g.
         let isValidGroup =
               (case target of
                  None \<Rightarrow> False
                | Some t \<Rightarrow> isType (heap g t) ''group'' \<and> \<not> isEmpty (heap g t))
         in case target of
              None \<Rightarrow> (Rejected NoReason, u, g)
            | Some t \<Rightarrow>
                if isValidGroup
                then (Resolved None, u\<lparr>store := Some (StoreObjects (members (heap g t)))\<rparr>,
                      fold object_remove (members (heap g t)) g)
                else if canvas_contains target g
                then (Resolved None, u\<lparr>store := Some (StoreObjects [t])\<rparr>, object_remove t g)
                else (Rejected NoReason, u, g)),
      cmd_undo = add_store,
      executeCallback = None, undoCallback = None, undoData = emptyUndoData\<rparr>"

definition createLoadImageCommand ::
  "(string \<Rightarrow> img \<Rightarrow> graphics \<Rightarrow> val option promise \<times> graphics)
     \<Rightarrow> string \<Rightarrow> img \<Rightarrow> (graphics, undoData, val option) command" where
  "createLoadImageCommand load imgName im =
     \<lparr>name = ''loadImage'',
      cmd_execute = (\<lambda>u g.
         let u1 = u\<lparr>store := Some (StoreImage (imageName g) (canvasImage g) (canvas g))\<rparr>;
             g1 = canvas_clear g;
             (p, g2) = load imgName im g1
         in (p, u1, g2)),
      cmd_undo = (\<lambda>u g.
         case store u of
           Some (StoreImage prevName prevImage objs) \<Rightarrow>
             (let g1 = canvas_clear g;
                  g2 = canvas_add objs g1;
                  (p, g3) = load prevName (case prevImage of None \<Rightarrow> NoImg | Some r \<Rightarrow> Img r) g2
              in (p, u, g3))
         | _ \<Rightarrow> \<comment> \<open>no snapshot: \<open>store.objects\<close> throws, after \<open>canvas.clear()\<close>\<close>
               (Unsettled, u, canvas_clear g)),
      executeCallback = None, undoCallback = None, undoData = emptyUndoData\<rparr>"

section \<open>Sample states\<close>

text \<open>
  The scene of the remove-command tests: two objects and a group holding both, all three
  on the canvas. \<open>historyInvoker\<close> has commands on both stacks.
\<close>

definition blankObject :: fobject where
  "blankObject = \<lparr>fe_id = None, otype = ''object'', members = [], props = (\<lambda>k. None)\<rparr>"

definition emptyGraphics :: graphics where
  "emptyGraphics =
     \<lparr>heap = (\<lambda>r. blankObject), nextRef = 0, lastId = 0, canvas = [],
      objects = (\<lambda>i. None), canvasImage = None, imageName = []\<rparr>"

definition sceneGraphics :: graphics where
  "sceneGraphics =
     \<lparr>heap = (\<lambda>r. blankObject)
         (0 := blankObject\<lparr>fe_id := Some 1\<rparr>,
          1 := blankObject\<lparr>fe_id := Some 2\<rparr>,
          2 := blankObject\<lparr>fe_id := Some 3, otype := ''group'', members := [0, 1]\<rparr>),
      nextRef = 3, lastId = 3, canvas = [0, 1, 2],
      objects = (\<lambda>i. None)(1 := Some 0, 2 := Some 1, 3 := Some 2),
      canvasImage = None, imageName = []\<rparr>"

definition historyInvoker :: "(graphics, undoData, val) invoker" where
  "historyInvoker =
     \<lparr>undoStack = [clearObjects, clearObjects], redoStack = [clearObjects],
      isLocked = False, fired = []\<rparr>"

definition lockedInvoker :: "(graphics, undoData, val) invoker" where
  "lockedInvoker = historyInvoker\<lparr>isLocked := True\<rparr>"

definition legacyInvoker :: "(graphics, undoData, val option) invoker" where
  "legacyInvoker =
     \<lparr>undoStack = [createClearCommand], redoStack = [createClearCommand],
      isLocked = False, fired = []\<rparr>"

definition clearedOnce :: "(graphics, undoData, val) invoker \<times> graphics" where
  "clearedOnce = snd (execute clearObjects new_Invoker sceneGraphics)"

definition clearedTwice :: "(graphics, undoData, val) invoker \<times> graphics" where
  "clearedTwice = snd (execute clearObjects (fst clearedOnce) (snd clearedOnce))"

text \<open>
  A loader whose picture cannot be loaded: \<open>load\<close> rejects, with the load-image message
  of consts.js, and leaves the state as it found it.
\<close>

definition failingLoad :: "string \<Rightarrow> img \<Rightarrow> graphics \<Rightarrow> val option promise \<times> graphics" where
  "failingLoad nm im g = (Rejected (Reason rejectMessages_loadImage), g)"

























section \<open>Stores the round trip is stated for\<close>

text \<open>
  \<open>stamped\<close>, \<open>reg\<close> and \<open>del\<close> describe what the two canvas handlers do to the id map
  when the objects already carry a stamp. A child of a group is ready when it is stamped,
  on the canvas and not a group itself. A target is ready when, being a group, it has
  children and they are all ready; the object an id names is ready when it is a ready
  target none of whose children carries that id. A canvas is free of groups when none of
  the objects on it is a group.
\<close>

definition reg :: "(ref \<Rightarrow> fobject) \<Rightarrow> ref list \<Rightarrow> (nat \<Rightarrow> ref option) \<Rightarrow> (nat \<Rightarrow> ref option)" where
  "reg h rs m =
     fold (\<lambda>r m. case fe_id (h r) of
                    None \<Rightarrow> m
                  | Some i \<Rightarrow> if otype (h r) = ''cropzone'' then m else m(i := Some r)) rs m"


definition stamped :: "graphics \<Rightarrow> ref \<Rightarrow> bool" where
  "stamped g r = (fe_id (heap g r) \<noteq> None)"

definition memberReady :: "graphics \<Rightarrow> ref \<Rightarrow> bool" where
  "memberReady g m =
     (fe_id (heap g m) \<noteq> None \<and> m \<in> set (canvas g) \<and> \<not> isType (heap g m) ''group'')"

definition isValidGroup :: "graphics \<Rightarrow> ref \<Rightarrow> bool" where
  "isValidGroup g t = (isType (heap g t) ''group'' \<and> \<not> isEmpty (heap g t))"





section \<open>Unfolding rules\<close>

lemmas invoker_defs = fireRedoStackChanged_def fireUndoStackChanged_def lock_def unlock_def
  pushUndoStack_def pushRedoStack_def isEmptyRedoStack_def isEmptyUndoStack_def
  clearUndoStack_def clearRedoStack_def pop_def callback_def

lemmas execute_defs = execute_def execute_call_def execute_settled_def
  invokeExecution_call_def invokeExecution_settled_def

lemmas undo_defs = undo_def undo_call_def invokeUndo_call_def invokeUndo_settled_def


lemmas invoke_defs = invoke_def invokeExecution_cm_call_def invokeExecution_cm_settled_def
  pushUndoStack_cm_def clearRedoStack_cm_def

lemmas graphics_defs = stamp_def isType_def isEmpty_def addFabricObject_def
  removeFabricObject_def onObjectAdded_def onObjectRemoved_def canvas_add_def
  canvas_remove1_def canvas_remove_def canvas_clear_def canvas_contains_def add_def
  contains_def getObjects_def getObject_def remove_def removeAll_def removeObjectById_def
  object_remove_def




lemma butlast_Nil_iff: "xs \<noteq> [] \<Longrightarrow> (butlast xs = []) = (length xs = 1)"
  by (cases xs rule: rev_cases) auto

section \<open>The invoker's stacks, lock and notifications\<close>

text \<open>
  C10: \<open>clearUndoStack\<close> and \<open>clearRedoStack\<close> on an empty stack change nothing and fire
  nothing; on a non-empty stack they empty it and fire exactly one stack-changed event
  (with length 0), and leave the other stack and the lock flag as they were.
\<close>

theorem clear_stacks_frame:
  "(isEmptyUndoStack iv \<longrightarrow> clearUndoStack iv = iv) \<and>
   (\<not> isEmptyUndoStack iv \<longrightarrow>
      undoStack (clearUndoStack iv) = [] \<and>
      fired (clearUndoStack iv) = fired iv @ [UNDO_STACK_CHANGED 0] \<and>
      redoStack (clearUndoStack iv) = redoStack iv \<and>
      isLocked (clearUndoStack iv) = isLocked iv) \<and>
   (isEmptyRedoStack iv \<longrightarrow> clearRedoStack iv = iv) \<and>
   (\<not> isEmptyRedoStack iv \<longrightarrow>
      redoStack (clearRedoStack iv) = [] \<and>
      fired (clearRedoStack iv) = fired iv @ [REDO_STACK_CHANGED 0] \<and>
      undoStack (clearRedoStack iv) = undoStack iv \<and>
      isLocked (clearRedoStack iv) = isLocked iv)"
  by (simp add: invoker_defs)

theorem clear_stacks_frame_witness:
  "isEmptyUndoStack (new_Invoker :: (graphics, undoData, val) invoker) \<and>
   isEmptyRedoStack (new_Invoker :: (graphics, undoData, val) invoker) \<and>
   clearUndoStack (new_Invoker :: (graphics, undoData, val) invoker) = new_Invoker \<and>
   clearRedoStack (new_Invoker :: (graphics, undoData, val) invoker) = new_Invoker \<and>
   \<not> isEmptyUndoStack historyInvoker \<and> \<not> isEmptyRedoStack historyInvoker \<and>
   undoStack (clearUndoStack historyInvoker) = [] \<and>
   fired (clearUndoStack historyInvoker) = [UNDO_STACK_CHANGED 0] \<and>
   redoStack (clearUndoStack historyInvoker) = [clearObjects] \<and>
   redoStack (clearRedoStack historyInvoker) = [] \<and>
   fired (clearRedoStack historyInvoker) = [REDO_STACK_CHANGED 0] \<and>
   undoStack (clearRedoStack historyInvoker) = [clearObjects, clearObjects]"
proof -
  have e: "isEmptyUndoStack (new_Invoker :: (graphics, undoData, val) invoker)"
          "isEmptyRedoStack (new_Invoker :: (graphics, undoData, val) invoker)"
    by (simp_all add: new_Invoker_def isEmptyUndoStack_def isEmptyRedoStack_def)
  have n: "\<not> isEmptyUndoStack historyInvoker" "\<not> isEmptyRedoStack historyInvoker"
    by (simp_all add: historyInvoker_def isEmptyUndoStack_def isEmptyRedoStack_def)
  have f: "fired historyInvoker = []" "redoStack historyInvoker = [clearObjects]"
          "undoStack historyInvoker = [clearObjects, clearObjects]"
    by (simp_all add: historyInvoker_def)
  show ?thesis
    using clear_stacks_frame [of "new_Invoker :: (graphics, undoData, val) invoker"]
      clear_stacks_frame [of historyInvoker] e n f
    by simp
qed

text \<open>
  C3: whenever \<open>execute\<close> resolves, the redo stack is empty afterwards, whatever the
  invoker's stacks were before (that is, after any history of operations).
\<close>

theorem execute_clears_redoStack:
  assumes "execute c iv g = (Resolved v, iv', g')"
  shows "isEmptyRedoStack iv'"
  using assms
  by (auto simp: execute_defs invoker_defs Let_def
      split: if_splits prod.splits promise.splits started.splits)

theorem execute_clears_redoStack_witness:
  "\<not> isEmptyRedoStack historyInvoker \<and>
   fst (execute (removeObject 1) historyInvoker sceneGraphics) = Resolved Undefined \<and>
   isEmptyRedoStack (fst (snd (execute (removeObject 1) historyInvoker sceneGraphics)))"
proof -
  obtain p iv' g' where e: "execute (removeObject 1) historyInvoker sceneGraphics = (p, iv', g')"
    by (cases "execute (removeObject 1) historyInvoker sceneGraphics") auto
  have r: "fst (execute (removeObject 1) historyInvoker sceneGraphics) = Resolved Undefined"
    by (simp add: execute_defs removeObject_def invoker_defs graphics_defs Let_def historyInvoker_def sceneGraphics_def blankObject_def)
  with e have "execute (removeObject 1) historyInvoker sceneGraphics = (Resolved Undefined, iv', g')"
    by simp
  from execute_clears_redoStack [OF this] have "isEmptyRedoStack iv'" .
  moreover have "\<not> isEmptyRedoStack historyInvoker"
    by (simp add: historyInvoker_def isEmptyRedoStack_def)
  ultimately show ?thesis using e r by simp
qed

text \<open>
  C5: \<open>undo\<close> on an empty undo stack rejects with the undo message (followed by the lock
  message when the invoker is also locked) and changes nothing, the redo stack included.
  \<open>undo\<close> on a non-empty undo stack of a locked invoker rejects with the undo message
  combined with the lock message; the popped command is pushed back silently, so the
  invoker, with its undo stack and its event log, is exactly as before.
\<close>

theorem undo_rejections:
  "(undoStack iv = [] \<longrightarrow>
      undo iv g = (Rejected (Reason (if isLocked iv
                      then rejectMessages_undo @ '' Because '' @ rejectMessages_isLock
                      else rejectMessages_undo)), iv, g)) \<and>
   (undoStack iv \<noteq> [] \<and> isLocked iv \<longrightarrow>
      undo iv g = (Rejected (Reason (rejectMessages_undo @ '' Because '' @ rejectMessages_isLock)), iv, g))"
  by (simp add: undo_def undo_call_def invoker_defs Let_def)

theorem undo_rejections_witness:
  "undoStack (new_Invoker :: (graphics, undoData, val) invoker) = [] \<and>
   undo (new_Invoker :: (graphics, undoData, val) invoker) sceneGraphics =
     (Rejected (Reason ''The promise of undo command is reject.''), new_Invoker, sceneGraphics) \<and>
   undoStack lockedInvoker \<noteq> [] \<and> isLocked lockedInvoker \<and>
   undo lockedInvoker sceneGraphics =
     (Rejected (Reason
        ''The promise of undo command is reject. Because The executing command state is locked.''),
      lockedInvoker, sceneGraphics)"
proof -
  have a: "undoStack (new_Invoker :: (graphics, undoData, val) invoker) = []"
          "\<not> isLocked (new_Invoker :: (graphics, undoData, val) invoker)"
    by (simp_all add: new_Invoker_def)
  have b: "undoStack lockedInvoker \<noteq> []" "isLocked lockedInvoker"
    by (simp_all add: lockedInvoker_def historyInvoker_def)
  show ?thesis
    using undo_rejections [of "new_Invoker :: (graphics, undoData, val) invoker" sceneGraphics]
      undo_rejections [of lockedInvoker sceneGraphics] a b
    by (simp add: rejectMessages_undo_def rejectMessages_isLock_def)
qed

text \<open>
  C9: a successful \<open>undo\<close> fires the undo-stack event only when the pop leaves the undo
  stack empty (the stack held one command), and then with length 0; from a stack of two
  or more commands the only event is the redo-stack event fired after the inverse action
  has succeeded.
\<close>

theorem undo_notifications:
  assumes "undo iv g = (Resolved v, iv', g')"
  shows "fired iv' = fired iv
           @ (if length (undoStack iv) = 1 then [UNDO_STACK_CHANGED 0] else [])
           @ [REDO_STACK_CHANGED (Suc (length (redoStack iv)))]"
  using assms
  by (auto simp: undo_defs invoker_defs Let_def butlast_Nil_iff
      split: if_splits prod.splits promise.splits started.splits option.splits)

theorem undo_notifications_witness:
  "length (undoStack (fst clearedOnce)) = 1 \<and>
   fst (undo (fst clearedOnce) (snd clearedOnce)) = Resolved Undefined \<and>
   fired (fst (snd (undo (fst clearedOnce) (snd clearedOnce)))) =
     fired (fst clearedOnce) @ [UNDO_STACK_CHANGED 0, REDO_STACK_CHANGED 1] \<and>
   length (undoStack (fst clearedTwice)) = 2 \<and>
   fst (undo (fst clearedTwice) (snd clearedTwice)) = Resolved Undefined \<and>
   fired (fst (snd (undo (fst clearedTwice) (snd clearedTwice)))) =
     fired (fst clearedTwice) @ [REDO_STACK_CHANGED 1]"
proof -
  obtain p1 iv1 g1 where e1: "undo (fst clearedOnce) (snd clearedOnce) = (p1, iv1, g1)"
    by (cases "undo (fst clearedOnce) (snd clearedOnce)") auto
  obtain p2 iv2 g2 where e2: "undo (fst clearedTwice) (snd clearedTwice) = (p2, iv2, g2)"
    by (cases "undo (fst clearedTwice) (snd clearedTwice)") auto
  have l1: "length (undoStack (fst clearedOnce)) = 1" "length (redoStack (fst clearedOnce)) = 0"
    by (simp_all add: clearedOnce_def execute_defs clearObjects_def invoker_defs graphics_defs
        Let_def new_Invoker_def sceneGraphics_def blankObject_def)
  have l2: "length (undoStack (fst clearedTwice)) = 2" "length (redoStack (fst clearedTwice)) = 0"
    by (simp_all add: clearedTwice_def clearedOnce_def execute_defs clearObjects_def invoker_defs
        graphics_defs Let_def new_Invoker_def sceneGraphics_def blankObject_def)
  have r1: "fst (undo (fst clearedOnce) (snd clearedOnce)) = Resolved Undefined"
    by (simp add: clearedOnce_def execute_defs undo_defs clearObjects_def add_undoData_objects_def
        invoker_defs graphics_defs Let_def new_Invoker_def sceneGraphics_def blankObject_def)
  have r2: "fst (undo (fst clearedTwice) (snd clearedTwice)) = Resolved Undefined"
    by (simp add: clearedTwice_def clearedOnce_def execute_defs undo_defs clearObjects_def
        add_undoData_objects_def invoker_defs graphics_defs Let_def new_Invoker_def sceneGraphics_def blankObject_def)
  from e1 r1 have "undo (fst clearedOnce) (snd clearedOnce) = (Resolved Undefined, iv1, g1)" by simp
  from undo_notifications [OF this] l1
  have f1: "fired iv1 = fired (fst clearedOnce) @ [UNDO_STACK_CHANGED 0, REDO_STACK_CHANGED 1]"
    by simp
  from e2 r2 have "undo (fst clearedTwice) (snd clearedTwice) = (Resolved Undefined, iv2, g2)" by simp
  from undo_notifications [OF this] l2
  have f2: "fired iv2 = fired (fst clearedTwice) @ [REDO_STACK_CHANGED 1]"
    by simp
  show ?thesis using e1 e2 l1 l2 r1 r2 f1 f2 by simp
qed

subsection \<open>Calls issued without waiting\<close>










subsection \<open>A failing forward action\<close>

text \<open>
  In the revision with \<open>execute(...args)\<close> a rejected forward action unlocks the invoker
  and its reason reaches the caller; nothing else of the invoker changes.
\<close>

lemma execute_failure_propagates:
  assumes "\<not> isLocked iv" and "cmd_execute c (undoData c) g = (Rejected m, u, g1)"
  shows "execute c iv g = (Rejected m, iv, g1)"
  using assms by (simp add: execute_defs invoker_defs Let_def)

text \<open>
  In src/js/invoker.js the \<open>catch\<close> between the two \<open>then\<close> replaces the rejection by
  \<open>undefined\<close>, and the \<open>then\<close> of \<open>invoke\<close> goes on to clear the redo stack.
\<close>

lemma invoke_swallows_rejection:
  assumes "\<not> isLocked iv" and "cmd_execute c (undoData c) g = (Rejected m, u, g1)"
  shows "invoke c iv g = (Resolved None, clearRedoStack_cm iv, g1)"
  using assms by (simp add: invoke_defs invoker_defs Let_def)

text \<open>
  C4, at a failing forward action in src/js/invoker.js: adding an object that is already
  on the canvas is rejected by the add-object command, yet \<open>invoke\<close> resolves with
  \<open>undefined\<close> and the redo stack, which held a command, is emptied.
\<close>

theorem invoke_loses_failure:
  "cmd_execute (fst (createAddObjectCommand 0 sceneGraphics)) emptyUndoData sceneGraphics =
     (Rejected NoReason, emptyUndoData, sceneGraphics) \<and>
   invoke (fst (createAddObjectCommand 0 sceneGraphics)) legacyInvoker sceneGraphics =
     (Resolved None, legacyInvoker\<lparr>redoStack := [], fired := [EMPTY_REDO_STACK]\<rparr>, sceneGraphics)"
  by (simp add: invoke_defs invoker_defs Let_def createAddObjectCommand_def graphics_defs
      legacyInvoker_def sceneGraphics_def blankObject_def)

section \<open>Effects of the canvas operations\<close>

lemma stamp_frame [simp]:
  "canvas (snd (stamp r g)) = canvas g"
  "objects (snd (stamp r g)) = objects g"
  "canvasImage (snd (stamp r g)) = canvasImage g"
  "imageName (snd (stamp r g)) = imageName g"
  "nextRef (snd (stamp r g)) = nextRef g"
  "otype (heap (snd (stamp r g)) x) = otype (heap g x)"
  "members (heap (snd (stamp r g)) x) = members (heap g x)"
  "props (heap (snd (stamp r g)) x) = props (heap g x)"
  by (simp_all add: stamp_def Let_def split: option.splits)

lemma onObjectRemoved_frame [simp]:
  "canvas (onObjectRemoved r g) = canvas g"
  "otype (heap (onObjectRemoved r g) x) = otype (heap g x)"
  "members (heap (onObjectRemoved r g) x) = members (heap g x)"
  "props (heap (onObjectRemoved r g) x) = props (heap g x)"
  by (simp_all add: onObjectRemoved_def removeFabricObject_def stamp_def Let_def split: option.splits prod.splits)

lemma onObjectAdded_frame [simp]:
  "canvas (onObjectAdded r g) = canvas g"
  "otype (heap (onObjectAdded r g) x) = otype (heap g x)"
  "members (heap (onObjectAdded r g) x) = members (heap g x)"
  "props (heap (onObjectAdded r g) x) = props (heap g x)"
  by (simp_all add: onObjectAdded_def addFabricObject_def stamp_def Let_def split: option.splits prod.splits)

lemma canvas_remove1_canvas [simp]:
  "canvas (canvas_remove1 r g) = remove1 r (canvas g)"
  by (simp add: canvas_remove1_def remove1_idem)

lemma canvas_remove1_frame [simp]:
  "otype (heap (canvas_remove1 r g) x) = otype (heap g x)"
  "members (heap (canvas_remove1 r g) x) = members (heap g x)"
  "props (heap (canvas_remove1 r g) x) = props (heap g x)"
  by (simp_all add: canvas_remove1_def)

lemma canvas_remove_canvas [simp]:
  "canvas (canvas_remove rs g) = fold remove1 rs (canvas g)"
  unfolding canvas_remove_def by (induction rs arbitrary: g) simp_all

lemma fold_onObjectAdded_canvas [simp]:
  "canvas (fold onObjectAdded rs g) = canvas g"
  by (induction rs arbitrary: g) simp_all

lemma canvas_add_canvas [simp]:
  "canvas (canvas_add rs g) = canvas g @ rs"
  by (simp add: canvas_add_def)

lemma canvas_add_frame [simp]:
  "otype (heap (canvas_add rs g) x) = otype (heap g x)"
  "members (heap (canvas_add rs g) x) = members (heap g x)"
  "props (heap (canvas_add rs g) x) = props (heap g x)"
proof -
  have "otype (heap (fold onObjectAdded rs g) x) = otype (heap g x) \<and>
        members (heap (fold onObjectAdded rs g) x) = members (heap g x) \<and>
        props (heap (fold onObjectAdded rs g) x) = props (heap g x)" for g
    by (induction rs arbitrary: g) simp_all
  from this [of "g\<lparr>canvas := canvas g @ rs\<rparr>"]
  show "otype (heap (canvas_add rs g) x) = otype (heap g x)"
    "members (heap (canvas_add rs g) x) = members (heap g x)"
    "props (heap (canvas_add rs g) x) = props (heap g x)"
    by (simp_all add: canvas_add_def)
qed

lemma canvas_remove_frame [simp]:
  "otype (heap (canvas_remove rs g) x) = otype (heap g x)"
  "members (heap (canvas_remove rs g) x) = members (heap g x)"
  "props (heap (canvas_remove rs g) x) = props (heap g x)"
  unfolding canvas_remove_def
  by (induction rs arbitrary: g) simp_all

lemma isValidGroup_frame [simp]:
  "isValidGroup (canvas_remove rs g) t = isValidGroup g t"
  "isValidGroup (canvas_add rs g) t = isValidGroup g t"
  by (simp_all add: isValidGroup_def isType_def isEmpty_def)

lemma fold_remove1_self: "fold remove1 xs (xs @ ys) = ys"
  by (induction xs) simp_all

lemma fold_remove1_all [simp]: "fold remove1 xs xs = []"
  using fold_remove1_self [of xs "[]"] by simp

lemma set_fold_remove1_distinct:
  "distinct xs \<Longrightarrow> set (fold remove1 rs xs) = set xs - set rs \<and> distinct (fold remove1 rs xs)"
  by (induction rs arbitrary: xs) (auto simp: set_remove1_eq)

lemma object_remove_group: "isType (heap g r) ''group'' \<Longrightarrow> object_remove r g = g"
  by (simp add: object_remove_def)

lemma object_remove_leaf:
  "\<not> isType (heap g r) ''group'' \<Longrightarrow> object_remove r g = canvas_remove1 r g"
  by (simp add: object_remove_def canvas_remove_def)

lemma object_remove_frame [simp]:
  "otype (heap (object_remove r g) x) = otype (heap g x)"
  "members (heap (object_remove r g) x) = members (heap g x)"
  "props (heap (object_remove r g) x) = props (heap g x)"
  by (simp_all add: object_remove_def canvas_remove_def)

lemma fold_object_remove_leaves:
  "list_all (\<lambda>r. \<not> isType (heap g r) ''group'') rs \<Longrightarrow>
     fold object_remove rs g = canvas_remove rs g"
proof (induction rs arbitrary: g)
  case Nil
  show ?case by (simp add: canvas_remove_def)
next
  case (Cons r rs)
  have "list_all (\<lambda>x. \<not> isType (heap (canvas_remove1 r g) x) ''group'') rs"
    using Cons.prems by (simp add: isType_def)
  from Cons.IH [OF this] Cons.prems show ?case
    by (simp add: object_remove_leaf canvas_remove_def)
qed

lemma fold_record_remove:
  "fold (\<lambda>obj (objs, g1). (objs @ [obj], object_remove obj g1)) ms (acc, g)
     = (acc @ ms, fold object_remove ms g)"
  by (induction ms arbitrary: acc g) simp_all

lemma removeObjectById_cases:
  "removeObjectById oid g =
     (case getObject oid g of
        None \<Rightarrow> ([], g)
      | Some t \<Rightarrow>
          if isValidGroup g t then (members (heap g t), fold object_remove (members (heap g t)) g)
          else if t \<in> set (canvas g) then ([t], object_remove t g)
          else ([], g))"
  by (simp add: removeObjectById_def Let_def isValidGroup_def fold_record_remove canvas_contains_def
      split: option.splits)

lemma removeObjectById_empty_iff:
  "fst (removeObjectById oid g) = [] \<longleftrightarrow>
     (case getObject oid g of
        None \<Rightarrow> True
      | Some t \<Rightarrow> \<not> isValidGroup g t \<and> t \<notin> set (canvas g))"
  by (auto simp: removeObjectById_cases isValidGroup_def isEmpty_def split: option.splits)

lemma removeObjectById_empty_unchanged:
  "fst (removeObjectById oid g) = [] \<Longrightarrow> snd (removeObjectById oid g) = g"
  by (auto simp: removeObjectById_cases isValidGroup_def isEmpty_def
      split: option.splits if_splits)


lemma stamp_stable:
  "fe_id (heap g x) = Some i \<Longrightarrow> fe_id (heap (snd (stamp r g)) x) = Some i"
  by (auto simp: stamp_def Let_def split: option.splits)

lemma canvas_remove1_stable:
  "fe_id (heap g x) = Some i \<Longrightarrow> fe_id (heap (canvas_remove1 r g) x) = Some i"
  by (auto simp: canvas_remove1_def onObjectRemoved_def removeFabricObject_def stamp_def Let_def
      split: option.splits)

lemma canvas_remove1_objects_None:
  "objects g k = None \<Longrightarrow> objects (canvas_remove1 r g) k = None"
  by (auto simp: canvas_remove1_def onObjectRemoved_def removeFabricObject_def stamp_def Let_def
      split: option.splits)

lemma canvas_remove1_removed:
  "r \<in> set (canvas g) \<Longrightarrow>
     \<exists>i. fe_id (heap (canvas_remove1 r g) r) = Some i \<and> objects (canvas_remove1 r g) i = None"
  by (auto simp: canvas_remove1_def onObjectRemoved_def removeFabricObject_def stamp_def Let_def
      split: option.splits)

lemma canvas_remove_stable:
  "fe_id (heap g x) = Some i \<Longrightarrow> fe_id (heap (canvas_remove rs g) x) = Some i"
  unfolding canvas_remove_def
  by (induction rs arbitrary: g) (simp_all add: canvas_remove1_stable)

lemma canvas_remove_objects_None:
  "objects g k = None \<Longrightarrow> objects (canvas_remove rs g) k = None"
  unfolding canvas_remove_def
  by (induction rs arbitrary: g) (simp_all add: canvas_remove1_objects_None)

lemma canvas_remove_removed:
  "x \<in> set rs \<Longrightarrow> x \<in> set (canvas g) \<Longrightarrow>
     \<exists>i. fe_id (heap (canvas_remove rs g) x) = Some i \<and> objects (canvas_remove rs g) i = None"
proof (induction rs arbitrary: g)
  case Nil
  then show ?case by simp
next
  case (Cons r rs)
  have step: "canvas_remove (r # rs) g = canvas_remove rs (canvas_remove1 r g)"
    by (simp add: canvas_remove_def)
  show ?case
  proof (cases "x = r")
    case True
    with Cons.prems obtain i where
      "fe_id (heap (canvas_remove1 r g) x) = Some i" "objects (canvas_remove1 r g) i = None"
      using canvas_remove1_removed [of r g] by auto
    then show ?thesis
      unfolding step by (auto intro: canvas_remove_stable canvas_remove_objects_None)
  next
    case False
    with Cons.prems have "x \<in> set rs" "x \<in> set (canvas (canvas_remove1 r g))" by auto
    from Cons.IH [OF this] show ?thesis unfolding step .
  qed
qed

lemma triple_eqI: "fst x = a \<Longrightarrow> x = (a, fst (snd x), snd (snd x))"
  by (cases x) auto


section \<open>Remove-object and clear-all\<close>

text \<open>
  The forward action of remove-object rejects with the no-object message exactly when the
  id names no object, or names one that is neither a group with children nor on the
  canvas, and then it has changed nothing. On a group whose children are ready (stamped,
  on the canvas, not groups) it resolves, records the list of the children and takes each
  of them off the canvas and out of the id map.
\<close>

lemma removeObject_rejects_iff:
  "fst (cmd_execute (removeObject oid) u g) = Rejected (Reason rejectMessages_noObject) \<longleftrightarrow>
     (case getObject oid g of
        None \<Rightarrow> True
      | Some t \<Rightarrow> \<not> isValidGroup g t \<and> t \<notin> set (canvas g))"
  by (auto simp: removeObject_def removeObjectById_cases isValidGroup_def isEmpty_def
      split: option.splits)

lemma removeObject_rejection_unchanged:
  assumes "case getObject oid g of
             None \<Rightarrow> True
           | Some t \<Rightarrow> \<not> isValidGroup g t \<and> t \<notin> set (canvas g)"
  shows "cmd_execute (removeObject oid) u g =
           (Rejected (Reason rejectMessages_noObject), u\<lparr>ud_objects := Some []\<rparr>, g)"
  using assms
  by (auto simp: removeObject_def removeObjectById_cases isValidGroup_def isEmpty_def
      split: option.splits)

lemma removeObject_flattens_leaves:
  assumes t: "getObject oid g = Some t" and v: "isValidGroup g t"
    and ready: "list_all (memberReady g) (members (heap g t))"
  shows "cmd_execute (removeObject oid) u g =
           (Resolved Undefined, u\<lparr>ud_objects := Some (members (heap g t))\<rparr>,
            canvas_remove (members (heap g t)) g)"
    and "canvas (canvas_remove (members (heap g t)) g) = fold remove1 (members (heap g t)) (canvas g)"
    and "distinct (canvas g) \<Longrightarrow>
           set (canvas (canvas_remove (members (heap g t)) g)) = set (canvas g) - set (members (heap g t))"
    and "\<forall>m\<in>set (members (heap g t)).
           \<exists>i. fe_id (heap g m) = Some i \<and> getObject i (canvas_remove (members (heap g t)) g) = None"
proof -
  have leaves: "fold object_remove (members (heap g t)) g = canvas_remove (members (heap g t)) g"
    using ready by (intro fold_object_remove_leaves) (simp add: list_all_iff memberReady_def)
  with t v show "cmd_execute (removeObject oid) u g =
           (Resolved Undefined, u\<lparr>ud_objects := Some (members (heap g t))\<rparr>,
            canvas_remove (members (heap g t)) g)"
    by (simp add: removeObject_def removeObjectById_cases isValidGroup_def isEmpty_def)
  show "canvas (canvas_remove (members (heap g t)) g) = fold remove1 (members (heap g t)) (canvas g)"
    by simp
  show "distinct (canvas g) \<Longrightarrow>
           set (canvas (canvas_remove (members (heap g t)) g)) = set (canvas g) - set (members (heap g t))"
    by (simp add: set_fold_remove1_distinct)
  show "\<forall>m\<in>set (members (heap g t)).
           \<exists>i. fe_id (heap g m) = Some i \<and> getObject i (canvas_remove (members (heap g t)) g) = None"
  proof
    fix m assume m: "m \<in> set (members (heap g t))"
    with ready obtain i where i: "fe_id (heap g m) = Some i" and on: "m \<in> set (canvas g)"
      by (auto simp: list_all_iff memberReady_def)
    from canvas_remove_removed [OF m on] canvas_remove_stable [OF i, of "members (heap g t)"]
    show "\<exists>i. fe_id (heap g m) = Some i \<and> getObject i (canvas_remove (members (heap g t)) g) = None"
      using i by (auto simp: getObject_def)
  qed
qed


lemma clearObjects_execute:
  "cmd_execute clearObjects u g =
     (Resolved Undefined, u\<lparr>ud_objects := Some (canvas g)\<rparr>, canvas_remove (canvas g) g)"
  "canvas (canvas_remove (canvas g) g) = []"
  by (simp_all add: clearObjects_def removeAll_def Let_def)

lemma clearObjects_undo:
  "cmd_undo clearObjects (u\<lparr>ud_objects := Some objs\<rparr>) g =
     (Resolved Undefined, u\<lparr>ud_objects := Some objs\<rparr>, add objs g)"
  "canvas (add objs g) = canvas g @ objs"
  by (simp_all add: clearObjects_def add_undoData_objects_def add_def)

lemma createClearCommand_execute:
  "cmd_execute createClearCommand u g =
     (if canvas g = [] then (Rejected NoReason, u\<lparr>store := Some (StoreObjects [])\<rparr>, g)
      else (Resolved None, u\<lparr>store := Some (StoreObjects (canvas g))\<rparr>,
            fold object_remove (canvas g) g))"
  by (simp add: createClearCommand_def Let_def)

lemma createClearCommand_undo:
  "cmd_undo createClearCommand (u\<lparr>store := Some (StoreObjects objs)\<rparr>) g =
     (Resolved None, u\<lparr>store := Some (StoreObjects objs)\<rparr>, canvas_add objs g)"
  by (simp add: createClearCommand_def add_store_def)


text \<open>
  C8, at an empty canvas: the clear-all command of command/clearObjects.js resolves, with an
  empty snapshot, and the invoker records it on the undo stack; the clear command of the
  older factory rejects on the same canvas.
\<close>

theorem clearObjects_accepts_empty_canvas:
  "canvas emptyGraphics = [] \<and>
   cmd_execute clearObjects emptyUndoData emptyGraphics =
     (Resolved Undefined, emptyUndoData\<lparr>ud_objects := Some []\<rparr>, emptyGraphics) \<and>
   fst (execute clearObjects new_Invoker emptyGraphics) = Resolved Undefined \<and>
   length (undoStack (fst (snd (execute clearObjects new_Invoker emptyGraphics)))) = 1 \<and>
   cmd_execute createClearCommand emptyUndoData emptyGraphics =
     (Rejected NoReason, emptyUndoData\<lparr>store := Some (StoreObjects [])\<rparr>, emptyGraphics)"
  by (simp add: execute_defs invoker_defs clearObjects_def createClearCommand_def graphics_defs
      Let_def new_Invoker_def emptyGraphics_def blankObject_def)

section \<open>Failing actions\<close>

text \<open>
  Change-icon-color on an id that names no object rejects with the no-object message, yet,
  unless the component's \<open>getColor\<close> throws on the missing object, it has gone on to call
  \<open>setColor\<close> with the new colour and no target. Its inverse never passes the recorded
  colour to \<open>setColor\<close>.
\<close>

lemma changeIconColor_missing_object:
  assumes "getObject oid g = None"
  shows "cmd_execute (changeIconColor iconComp oid color) u g =
           (case getColor iconComp None g of
              None \<Rightarrow> (Rejected (Reason rejectMessages_noObject), u\<lparr>ud_object := None\<rparr>, g)
            | Some c \<Rightarrow> (Rejected (Reason rejectMessages_noObject),
                         u\<lparr>ud_object := None, ud_color := c\<rparr>,
                         setColor iconComp (Some color) None g))"
  using assms by (simp add: changeIconColor_def Let_def split: option.splits)

lemma changeIconColor_undo_ignores_recorded_color:
  "cmd_undo (changeIconColor iconComp oid color) (u\<lparr>ud_color := c1\<rparr>) g =
     (case cmd_undo (changeIconColor iconComp oid color) (u\<lparr>ud_color := c2\<rparr>) g of
        (p, u', g') \<Rightarrow> (p, u'\<lparr>ud_color := c1\<rparr>, g'))"
  by (simp add: changeIconColor_def split: option.splits)

text \<open>
  C6, as amended: for remove-object, set-object-properties and the factory's add-object,
  clear and remove commands, an action that rejects has changed nothing of the
  collaborator, since the presence or absence check comes before the mutation; the other
  actions of these commands, and both actions of clear-all, never reject.
\<close>

theorem validated_commands_fail_cleanly:
  "(cmd_execute (removeObject oid) u g = (Rejected m, u', g') \<longrightarrow> g' = g) \<and>
   fst (cmd_undo (removeObject oid) u g) \<noteq> Rejected m \<and>
   fst (cmd_execute clearObjects u g) \<noteq> Rejected m \<and>
   fst (cmd_undo clearObjects u g) \<noteq> Rejected m \<and>
   (cmd_execute (setObjectProperties_command oid ps) u g = (Rejected m, u', g') \<longrightarrow> g' = g) \<and>
   fst (cmd_undo (setObjectProperties_command oid ps) u g) \<noteq> Rejected m \<and>
   (cmd_execute (fst (createAddObjectCommand obj g0)) u g = (Rejected m, u', g') \<longrightarrow> g' = g) \<and>
   (cmd_undo (fst (createAddObjectCommand obj g0)) u g = (Rejected m, u', g') \<longrightarrow> g' = g) \<and>
   (cmd_execute createClearCommand u g = (Rejected m, u', g') \<longrightarrow> g' = g) \<and>
   fst (cmd_undo createClearCommand u g) \<noteq> Rejected m \<and>
   (cmd_execute (createRemoveCommand target) u g = (Rejected m, u', g') \<longrightarrow> g' = g) \<and>
   fst (cmd_undo (createRemoveCommand target) u g) \<noteq> Rejected m"
proof -
  have 1: "cmd_execute (removeObject oid) u g = (Rejected m, u', g') \<longrightarrow> g' = g"
    using removeObjectById_empty_unchanged [of oid g]
    by (cases "removeObjectById oid g") (auto simp: removeObject_def Let_def split: if_splits)
  have 2: "fst (cmd_undo (removeObject oid) u g) \<noteq> Rejected m"
          "fst (cmd_undo clearObjects u g) \<noteq> Rejected m"
    by (simp_all add: removeObject_def clearObjects_def add_undoData_objects_def split: option.splits)
  have 3: "fst (cmd_execute clearObjects u g) \<noteq> Rejected m"
    by (simp add: clearObjects_execute)
  have 4: "cmd_execute (setObjectProperties_command oid ps) u g = (Rejected m, u', g') \<longrightarrow> g' = g"
    by (auto simp: setObjectProperties_command_def setObjectProperties_def Let_def
        split: option.splits)
  have 5: "fst (cmd_undo (setObjectProperties_command oid ps) u g) \<noteq> Rejected m"
    by (auto simp: setObjectProperties_command_def setObjectProperties_def Let_def
        split: option.splits)
  have 6: "cmd_execute (fst (createAddObjectCommand obj g0)) u g = (Rejected m, u', g') \<longrightarrow> g' = g"
          "cmd_undo (fst (createAddObjectCommand obj g0)) u g = (Rejected m, u', g') \<longrightarrow> g' = g"
    by (auto simp: createAddObjectCommand_def split: if_splits)
  have 7: "cmd_execute createClearCommand u g = (Rejected m, u', g') \<longrightarrow> g' = g"
    by (auto simp: createClearCommand_execute split: if_splits)
  have 8: "fst (cmd_undo createClearCommand u g) \<noteq> Rejected m"
          "fst (cmd_undo (createRemoveCommand target) u g) \<noteq> Rejected m"
    by (simp_all add: createClearCommand_def createRemoveCommand_def add_store_def
        split: option.splits store.splits)
  have 9: "cmd_execute (createRemoveCommand target) u g = (Rejected m, u', g') \<longrightarrow> g' = g"
    by (auto simp: createRemoveCommand_def Let_def split: option.splits if_splits)
  from 1 2 3 4 5 6 7 8 9 show ?thesis by blast
qed


theorem validated_commands_fail_cleanly_witness:
  "fst (cmd_execute (removeObject 7) emptyUndoData sceneGraphics) = Rejected (Reason rejectMessages_noObject) \<and>
   snd (snd (cmd_execute (removeObject 7) emptyUndoData sceneGraphics)) = sceneGraphics \<and>
   fst (cmd_execute (setObjectProperties_command 7 [(''fill'', Some ''red'')]) emptyUndoData sceneGraphics)
     = Rejected (Reason rejectMessages_noObject) \<and>
   snd (snd (cmd_execute (setObjectProperties_command 7 [(''fill'', Some ''red'')]) emptyUndoData sceneGraphics))
     = sceneGraphics \<and>
   fst (cmd_execute (fst (createAddObjectCommand 0 sceneGraphics)) emptyUndoData sceneGraphics) = Rejected NoReason \<and>
   snd (snd (cmd_execute (fst (createAddObjectCommand 0 sceneGraphics)) emptyUndoData sceneGraphics)) = sceneGraphics \<and>
   fst (cmd_undo (fst (createAddObjectCommand 5 sceneGraphics)) emptyUndoData sceneGraphics) = Rejected NoReason \<and>
   snd (snd (cmd_undo (fst (createAddObjectCommand 5 sceneGraphics)) emptyUndoData sceneGraphics)) = sceneGraphics \<and>
   fst (cmd_execute createClearCommand emptyUndoData emptyGraphics) = Rejected NoReason \<and>
   snd (snd (cmd_execute createClearCommand emptyUndoData emptyGraphics)) = emptyGraphics \<and>
   fst (cmd_execute (createRemoveCommand (Some 5)) emptyUndoData sceneGraphics) = Rejected NoReason \<and>
   snd (snd (cmd_execute (createRemoveCommand (Some 5)) emptyUndoData sceneGraphics)) = sceneGraphics"
proof -
  let ?c1 = "cmd_execute (removeObject 7) emptyUndoData sceneGraphics"
  let ?c2 = "cmd_execute (setObjectProperties_command 7 [(''fill'', Some ''red'')]) emptyUndoData sceneGraphics"
  let ?c3 = "cmd_execute (fst (createAddObjectCommand 0 sceneGraphics)) emptyUndoData sceneGraphics"
  let ?c4 = "cmd_undo (fst (createAddObjectCommand 5 sceneGraphics)) emptyUndoData sceneGraphics"
  let ?c5 = "cmd_execute createClearCommand emptyUndoData emptyGraphics"
  let ?c6 = "cmd_execute (createRemoveCommand (Some 5)) emptyUndoData sceneGraphics"
  have f1: "fst ?c1 = Rejected (Reason rejectMessages_noObject)"
    by (simp add: removeObject_def removeObjectById_def getObject_def sceneGraphics_def)
  have f2: "fst ?c2 = Rejected (Reason rejectMessages_noObject)"
    by (simp add: setObjectProperties_command_def getObject_def sceneGraphics_def)
  have f3: "fst ?c3 = Rejected NoReason"
    by (simp add: createAddObjectCommand_def canvas_contains_def sceneGraphics_def)
  have f4: "fst ?c4 = Rejected NoReason"
    by (simp add: createAddObjectCommand_def canvas_contains_def sceneGraphics_def)
  have f5: "fst ?c5 = Rejected NoReason"
    by (simp add: createClearCommand_def emptyGraphics_def)
  have f6: "fst ?c6 = Rejected NoReason"
    by (simp add: createRemoveCommand_def canvas_contains_def isType_def sceneGraphics_def
        blankObject_def)
  have g1: "snd (snd ?c1) = sceneGraphics"
    using validated_commands_fail_cleanly [where oid = 7 and u = emptyUndoData and g = sceneGraphics
        and m = "Reason rejectMessages_noObject" and u' = "fst (snd ?c1)" and g' = "snd (snd ?c1)"]
      triple_eqI [OF f1] by blast
  have g2: "snd (snd ?c2) = sceneGraphics"
    using validated_commands_fail_cleanly [where oid = 7 and ps = "[(''fill'', Some ''red'')]"
        and u = emptyUndoData and g = sceneGraphics
        and m = "Reason rejectMessages_noObject" and u' = "fst (snd ?c2)" and g' = "snd (snd ?c2)"]
      triple_eqI [OF f2] by blast
  have g3: "snd (snd ?c3) = sceneGraphics"
    using validated_commands_fail_cleanly [where obj = 0 and ?g0.0 = sceneGraphics
        and u = emptyUndoData and g = sceneGraphics
        and m = NoReason and u' = "fst (snd ?c3)" and g' = "snd (snd ?c3)"]
      triple_eqI [OF f3] by blast
  have g4: "snd (snd ?c4) = sceneGraphics"
    using validated_commands_fail_cleanly [where obj = 5 and ?g0.0 = sceneGraphics
        and u = emptyUndoData and g = sceneGraphics
        and m = NoReason and u' = "fst (snd ?c4)" and g' = "snd (snd ?c4)"]
      triple_eqI [OF f4] by blast
  have g5: "snd (snd ?c5) = emptyGraphics"
    using validated_commands_fail_cleanly [where u = emptyUndoData and g = emptyGraphics
        and m = NoReason and u' = "fst (snd ?c5)" and g' = "snd (snd ?c5)"]
      triple_eqI [OF f5] by blast
  have g6: "snd (snd ?c6) = sceneGraphics"
    using validated_commands_fail_cleanly [where target = "Some 5"
        and u = emptyUndoData and g = sceneGraphics
        and m = NoReason and u' = "fst (snd ?c6)" and g' = "snd (snd ?c6)"]
      triple_eqI [OF f6] by blast
  from f1 f2 f3 f4 f5 f6 g1 g2 g3 g4 g5 g6 show ?thesis by blast
qed


text \<open>
  The load-image command clears the canvas before it starts loading: when the load fails,
  the objects that were on the canvas are gone.
\<close>

theorem loadImage_failure_clears_canvas:
  "fst (cmd_execute (createLoadImageCommand failingLoad ''image'' (Url ''image.png''))
          emptyUndoData sceneGraphics) = Rejected (Reason rejectMessages_loadImage) \<and>
   canvas sceneGraphics = [0, 1, 2] \<and>
   canvas (snd (snd (cmd_execute (createLoadImageCommand failingLoad ''image'' (Url ''image.png''))
          emptyUndoData sceneGraphics))) = [] \<and>
   snd (snd (cmd_execute (createLoadImageCommand failingLoad ''image'' (Url ''image.png''))
          emptyUndoData sceneGraphics)) \<noteq> sceneGraphics"
proof -
  let ?r = "cmd_execute (createLoadImageCommand failingLoad ''image'' (Url ''image.png''))
          emptyUndoData sceneGraphics"
  have a: "fst ?r = Rejected (Reason rejectMessages_loadImage)"
    by (simp add: createLoadImageCommand_def failingLoad_def Let_def)
  have b: "canvas sceneGraphics = [0, 1, 2]" by (simp add: sceneGraphics_def)
  have c: "canvas (snd (snd ?r)) = []"
    by (simp add: createLoadImageCommand_def failingLoad_def canvas_clear_def Let_def)
  from b c have "snd (snd ?r) \<noteq> sceneGraphics" by auto
  with a b c show ?thesis by blast
qed

text \<open>
  With the image loader of the sources the same happens when the command is given a name
  and no image: \<open>load\<close> rejects at once, without a reason, and the canvas has been
  cleared.
\<close>

lemma loadImage_without_image:
  assumes "imgName \<noteq> []"
  shows "cmd_execute (createLoadImageCommand (ImageLoader_load setBackgroundImage) imgName NoImg) u g =
           (Rejected NoReason,
            u\<lparr>store := Some (StoreImage (imageName g) (canvasImage g) (canvas g))\<rparr>,
            canvas_clear g)"
  using assms by (simp add: createLoadImageCommand_def ImageLoader_load_def Let_def)

section \<open>Round trips\<close>

lemma stamp_stamped: "stamped g r \<Longrightarrow> stamp r g = (the (fe_id (heap g r)), g)"
  by (auto simp: stamped_def stamp_def)

lemma onObjectAdded_stamped:
  "stamped g r \<Longrightarrow> onObjectAdded r g = g\<lparr>objects := reg (heap g) [r] (objects g)\<rparr>"
  by (auto simp: stamped_def onObjectAdded_def addFabricObject_def stamp_def reg_def isType_def)


lemma reg_Cons: "reg h (r # rs) m = reg h rs (reg h [r] m)"
  by (simp add: reg_def)


lemma fold_onObjectAdded_stamped:
  "\<forall>r\<in>set rs. stamped g r \<Longrightarrow> fold onObjectAdded rs g = g\<lparr>objects := reg (heap g) rs (objects g)\<rparr>"
proof (induction rs arbitrary: g)
  case Nil
  show ?case by (simp add: reg_def)
next
  case (Cons r rs)
  let ?g = "g\<lparr>objects := reg (heap g) [r] (objects g)\<rparr>"
  have s: "\<forall>x\<in>set rs. stamped ?g x" using Cons.prems by (simp add: stamped_def)
  have "fold onObjectAdded (r # rs) g = fold onObjectAdded rs ?g"
    using Cons.prems by (simp add: onObjectAdded_stamped)
  also have "\<dots> = ?g\<lparr>objects := reg (heap ?g) rs (objects ?g)\<rparr>"
    by (rule Cons.IH [OF s])
  also have "\<dots> = g\<lparr>objects := reg (heap g) (r # rs) (objects g)\<rparr>"
    by (simp add: reg_Cons [of _ r rs])
  finally show ?case .
qed

lemma canvas_add_stamped:
  "\<forall>r\<in>set rs. stamped g r \<Longrightarrow>
     canvas_add rs g = g\<lparr>canvas := canvas g @ rs, objects := reg (heap g) rs (objects g)\<rparr>"
  by (simp add: canvas_add_def fold_onObjectAdded_stamped stamped_def)

text \<open>The inverse of remove-object puts the recorded objects back and registers them.\<close>

lemma removeObject_undo_adds:
  assumes "\<forall>m\<in>set ms. fe_id (heap g1 m) \<noteq> None \<and> \<not> isType (heap g1 m) ''cropzone''"
  shows "cmd_undo (removeObject oid) (u\<lparr>ud_objects := Some ms\<rparr>) g1 =
           (Resolved Undefined, u\<lparr>ud_objects := Some ms\<rparr>, canvas_add ms g1)"
    and "canvas (canvas_add ms g1) = canvas g1 @ ms"
    and "\<forall>m\<in>set ms. \<exists>i. fe_id (heap g1 m) = Some i \<and> getObject i (canvas_add ms g1) \<noteq> None"
proof -
  show "cmd_undo (removeObject oid) (u\<lparr>ud_objects := Some ms\<rparr>) g1 =
           (Resolved Undefined, u\<lparr>ud_objects := Some ms\<rparr>, canvas_add ms g1)"
    by (simp add: removeObject_def add_undoData_objects_def add_def)
  show "canvas (canvas_add ms g1) = canvas g1 @ ms" by simp
  have st: "\<forall>r\<in>set ms. stamped g1 r" using assms by (simp add: stamped_def)
  have reg_in: "\<exists>i. fe_id (h m) = Some i \<and> reg h rs mp i \<noteq> None"
    if "m \<in> set rs" "\<forall>r\<in>set rs. fe_id (h r) \<noteq> None \<and> otype (h r) \<noteq> ''cropzone''"
    for h m rs and mp :: "nat \<Rightarrow> ref option"
    using that
  proof (induction rs arbitrary: mp rule: rev_induct)
    case Nil
    then show ?case by simp
  next
    case (snoc x xs)
    obtain j where j: "fe_id (h x) = Some j" using snoc.prems(2) by auto
    have nc: "otype (h x) \<noteq> ''cropzone''" using snoc.prems(2) by auto
    have app: "reg h (xs @ [x]) mp = (reg h xs mp)(j := Some x)"
      using j nc by (simp add: reg_def)
    show ?case
    proof (cases "m = x")
      case True
      with j app show ?thesis by simp
    next
      case False
      with snoc.prems have "m \<in> set xs" by simp
      with snoc.IH [of mp] snoc.prems(2) obtain i where
        "fe_id (h m) = Some i" "reg h xs mp i \<noteq> None" by auto
      with app show ?thesis by auto
    qed
  qed
  show "\<forall>m\<in>set ms. \<exists>i. fe_id (heap g1 m) = Some i \<and> getObject i (canvas_add ms g1) \<noteq> None"
  proof
    fix m assume "m \<in> set ms"
    from reg_in [OF this, of "heap g1" "objects g1"] assms
    show "\<exists>i. fe_id (heap g1 m) = Some i \<and> getObject i (canvas_add ms g1) \<noteq> None"
      by (simp add: canvas_add_stamped [OF st] getObject_def isType_def)
  qed
qed
































end
